theory Spec2Isabelle
  imports Complex_Main "HOL-Library.Char_ord" "HOL-Library.List_Lexorder"
begin

section \<open>The outfit recommendation service (src/services/AIService.ts)\<close>

text \<open>
  A shallow embedding of the class \<open>IntelligentService\<close>. Conventions:
  \<^item> a JavaScript number that holds a score is a \<open>real\<close>: the decimal literals of the
    tables are exact rationals and \<open>+\<close>, \<open>/\<close> are exact (no rounding of doubles);
    counts and indices are \<open>nat\<close>;
  \<^item> a string is a \<open>string\<close>; \<open>toLowerCase\<close> maps the ASCII capitals;
  \<open>Array.prototype.sort()\<close> on strings is the sort by the character codes;
  \<^item> an object literal used as a dictionary is a finite map over its own keys;
  \<open>o[k]\<close> on a missing key is \<open>None\<close> (JavaScript's \<open>undefined\<close>);
  \<^item> \<open>Math.random()\<close> returns a number in \<open>[0, 1)\<close>: the type \<open>draw\<close>. The random
    source is a sequence \<open>rnd :: nat \<Rightarrow> draw\<close> and a position; every call of
    \<open>Math.random()\<close> reads \<open>rnd pos\<close> and moves the position by one;
  \<^item> the fields of \<open>this\<close> are a record that is passed to every method.
\<close>

subsection \<open>Data\<close>

record ClothingItem =
  uri :: string
  category :: string
  color :: string

record OutfitRating =
  outfitId :: string
  rating :: real
  timestamp :: nat

text \<open>\<open>reason\<close> is \<open>None\<close> where the source reads \<open>reasons[index]\<close> at a negative index
  (\<open>undefined\<close>).\<close>

record OutfitRecommendation =
  items :: "ClothingItem list"
  score :: real
  reason :: "string option"
  style :: string

record IntelligentService =
  outfitRatings :: "OutfitRating list"
  colorCompatibilityMatrix :: "string \<rightharpoonup> (string \<rightharpoonup> real)"
  stylePreferences :: "string \<rightharpoonup> real"

typedef draw = "{r :: real. 0 \<le> r \<and> r < 1}"
  morphisms draw_value Draw
  by (rule exI [of _ 0]) simp

setup_lifting type_definition_draw

lift_definition drawZero :: draw is "0 :: real"
  by simp

lift_definition drawHalf :: draw is "1 / 2 :: real"
  by simp

lift_definition drawHigh :: draw is "9 / 10 :: real"
  by simp

subsection \<open>Strings\<close>

definition lowerChar :: "char \<Rightarrow> char" where
  "lowerChar c =
     (case map_of (zip ''ABCDEFGHIJKLMNOPQRSTUVWXYZ'' ''abcdefghijklmnopqrstuvwxyz'') c of
        Some l \<Rightarrow> l
      | None \<Rightarrow> c)"

definition toLowerCase :: "string \<Rightarrow> string" where
  "toLowerCase s = map lowerChar s"

fun join :: "string \<Rightarrow> string list \<Rightarrow> string" where
  "join sep [] = []"
| "join sep [x] = x"
| "join sep (x # y # ys) = x @ sep @ join sep (y # ys)"

text \<open>\<open>e || d\<close> on an optional number: \<open>undefined\<close> and \<open>0\<close> are falsy.\<close>

definition orElse :: "real option \<Rightarrow> real \<Rightarrow> real" where
  "orElse v d = (case v of None \<Rightarrow> d | Some x \<Rightarrow> if x = 0 then d else x)"

text \<open>\<open>m[a]?.[b]\<close> on a dictionary of dictionaries.\<close>

definition lookup2 :: "('a \<rightharpoonup> ('b \<rightharpoonup> 'c)) \<Rightarrow> 'a \<Rightarrow> 'b \<Rightarrow> 'c option" where
  "lookup2 m a b = (case m a of None \<Rightarrow> None | Some row \<Rightarrow> row b)"

subsection \<open>The colour compatibility matrix\<close>

definition colors :: "string list" where
  "colors = [''red'', ''blue'', ''green'', ''yellow'', ''purple'', ''orange'', ''pink'',
     ''brown'', ''black'', ''white'', ''gray'']"

definition compatibilityRules :: "string \<rightharpoonup> (string \<rightharpoonup> real)" where
  "compatibilityRules = map_of [
     (''red'', map_of [(''green'', 0.9), (''blue'', 0.7), (''yellow'', 0.6), (''purple'', 0.8),
        (''orange'', 0.5), (''pink'', 0.8), (''brown'', 0.7), (''black'', 0.9), (''white'', 0.8),
        (''gray'', 0.7)]),
     (''blue'', map_of [(''red'', 0.7), (''green'', 0.6), (''yellow'', 0.8), (''purple'', 0.9),
        (''orange'', 0.7), (''pink'', 0.6), (''brown'', 0.6), (''black'', 0.9), (''white'', 0.8),
        (''gray'', 0.8)]),
     (''green'', map_of [(''red'', 0.9), (''blue'', 0.6), (''yellow'', 0.7), (''purple'', 0.6),
        (''orange'', 0.8), (''pink'', 0.5), (''brown'', 0.8), (''black'', 0.9), (''white'', 0.8),
        (''gray'', 0.7)]),
     (''yellow'', map_of [(''red'', 0.6), (''blue'', 0.8), (''green'', 0.7), (''purple'', 0.7),
        (''orange'', 0.9), (''pink'', 0.6), (''brown'', 0.7), (''black'', 0.9), (''white'', 0.8),
        (''gray'', 0.6)]),
     (''purple'', map_of [(''red'', 0.8), (''blue'', 0.9), (''green'', 0.6), (''yellow'', 0.7),
        (''orange'', 0.6), (''pink'', 0.8), (''brown'', 0.6), (''black'', 0.9), (''white'', 0.8),
        (''gray'', 0.7)]),
     (''orange'', map_of [(''red'', 0.5), (''blue'', 0.7), (''green'', 0.8), (''yellow'', 0.9),
        (''purple'', 0.6), (''pink'', 0.7), (''brown'', 0.8), (''black'', 0.9), (''white'', 0.8),
        (''gray'', 0.6)]),
     (''pink'', map_of [(''red'', 0.8), (''blue'', 0.6), (''green'', 0.5), (''yellow'', 0.6),
        (''purple'', 0.8), (''orange'', 0.7), (''brown'', 0.5), (''black'', 0.9), (''white'', 0.8),
        (''gray'', 0.7)]),
     (''brown'', map_of [(''red'', 0.7), (''blue'', 0.6), (''green'', 0.8), (''yellow'', 0.7),
        (''purple'', 0.6), (''orange'', 0.8), (''pink'', 0.5), (''black'', 0.9), (''white'', 0.8),
        (''gray'', 0.8)]),
     (''black'', map_of [(''red'', 0.9), (''blue'', 0.9), (''green'', 0.9), (''yellow'', 0.9),
        (''purple'', 0.9), (''orange'', 0.9), (''pink'', 0.9), (''brown'', 0.9), (''white'', 0.8),
        (''gray'', 0.9)]),
     (''white'', map_of [(''red'', 0.8), (''blue'', 0.8), (''green'', 0.8), (''yellow'', 0.8),
        (''purple'', 0.8), (''orange'', 0.8), (''pink'', 0.8), (''brown'', 0.8), (''black'', 0.8),
        (''gray'', 0.8)]),
     (''gray'', map_of [(''red'', 0.7), (''blue'', 0.8), (''green'', 0.7), (''yellow'', 0.6),
        (''purple'', 0.7), (''orange'', 0.6), (''pink'', 0.7), (''brown'', 0.8), (''black'', 0.9),
        (''white'', 0.8)])]"

text \<open>The body of the inner \<open>forEach\<close>: the value stored at \<open>[color1][color2]\<close>. The
  test \<open>compatibilityRules[color1]?.[color2]\<close> is a truthiness test.\<close>

definition matrixEntry :: "string \<Rightarrow> string \<Rightarrow> real" where
  "matrixEntry color1 color2 =
     (if color1 = color2 then 1.0
      else (case lookup2 compatibilityRules color1 color2 of
              Some v \<Rightarrow> if v \<noteq> 0 then v else 0.5
            | None \<Rightarrow> 0.5))"

text \<open>The two nested \<open>forEach\<close> loops: the row of \<open>color1\<close> starts empty and gets one
  entry per colour.\<close>

definition matrixRow :: "string \<Rightarrow> (string \<rightharpoonup> real)" where
  "matrixRow color1 = fold (\<lambda>color2 row. row(color2 \<mapsto> matrixEntry color1 color2)) colors Map.empty"

definition initializeColorCompatibilityMatrix :: "IntelligentService \<Rightarrow> IntelligentService" where
  "initializeColorCompatibilityMatrix this =
     this\<lparr>colorCompatibilityMatrix :=
       fold (\<lambda>color1 m. m(color1 \<mapsto> matrixRow color1)) colors (colorCompatibilityMatrix this)\<rparr>"

text \<open>The constructor: the field initialisers, then the matrix. (\<open>loadUserPreferences\<close> reads
  the two feedback fields from storage later.)\<close>

definition newService :: IntelligentService where
  "newService = initializeColorCompatibilityMatrix
     \<lparr>outfitRatings = [], colorCompatibilityMatrix = Map.empty, stylePreferences = Map.empty\<rparr>"

subsection \<open>Colour and style compatibility\<close>

definition colorMapping :: "string \<rightharpoonup> string" where
  "colorMapping = map_of [
     (''red'', ''red''), (''blue'', ''blue''), (''green'', ''green''), (''yellow'', ''yellow''),
     (''purple'', ''purple''), (''orange'', ''orange''), (''pink'', ''pink''), (''brown'', ''brown''),
     (''black'', ''black''), (''white'', ''white''), (''gray'', ''gray''), (''grey'', ''gray''),
     (''navy'', ''blue''), (''dark blue'', ''blue''), (''light blue'', ''blue''),
     (''dark green'', ''green''), (''light green'', ''green''),
     (''dark red'', ''red''), (''light red'', ''red''),
     (''beige'', ''brown''), (''tan'', ''brown''), (''cream'', ''white'')]"

definition extractColorFromItem :: "ClothingItem \<Rightarrow> string" where
  "extractColorFromItem item =
     (case colorMapping (toLowerCase (color item)) of
        Some c \<Rightarrow> if c = [] then ''gray'' else c
      | None \<Rightarrow> ''gray'')"

definition calculateColorCompatibility :: "IntelligentService \<Rightarrow> ClothingItem \<Rightarrow> ClothingItem \<Rightarrow> real" where
  "calculateColorCompatibility this item1 item2 =
     orElse (lookup2 (colorCompatibilityMatrix this)
               (extractColorFromItem item1) (extractColorFromItem item2)) 0.5"

definition styleRules :: "string \<rightharpoonup> (string \<rightharpoonup> real)" where
  "styleRules = map_of [
     (''t-shirt'', map_of [(''jeans'', 0.9), (''shorts'', 0.8), (''sweatpants'', 0.7),
        (''shirt'', 0.6), (''dress'', 0.3), (''skirt'', 0.4)]),
     (''shirt'', map_of [(''jeans'', 0.9), (''shorts'', 0.6), (''sweatpants'', 0.5),
        (''t-shirt'', 0.6), (''dress'', 0.4), (''skirt'', 0.8)]),
     (''jeans'', map_of [(''t-shirt'', 0.9), (''shirt'', 0.9), (''shorts'', 0.6),
        (''sweatpants'', 0.5), (''dress'', 0.3), (''skirt'', 0.4)]),
     (''dress'', map_of [(''t-shirt'', 0.3), (''shirt'', 0.4), (''jeans'', 0.3),
        (''shorts'', 0.2), (''sweatpants'', 0.2), (''skirt'', 0.6)]),
     (''skirt'', map_of [(''t-shirt'', 0.4), (''shirt'', 0.8), (''jeans'', 0.4),
        (''shorts'', 0.3), (''sweatpants'', 0.3), (''dress'', 0.6)])]"

definition calculateStyleCompatibility :: "ClothingItem \<Rightarrow> ClothingItem \<Rightarrow> real" where
  "calculateStyleCompatibility item1 item2 =
     orElse (lookup2 styleRules (toLowerCase (category item1)) (toLowerCase (category item2))) 0.5"

subsection \<open>Scoring, style and reason\<close>

text \<open>The score of one pair, as the inner loop body computes it.\<close>

definition pairScore :: "IntelligentService \<Rightarrow> ClothingItem \<Rightarrow> ClothingItem \<Rightarrow> real" where
  "pairScore this a b =
     (calculateColorCompatibility this a b + calculateStyleCompatibility a b) / 2"

text \<open>The two \<open>for\<close> loops of \<open>calculateOutfitScore\<close>; the accumulator is
  \<open>(totalScore, comparisons)\<close>.\<close>

function scoreInner ::
  "IntelligentService \<Rightarrow> ClothingItem list \<Rightarrow> nat \<Rightarrow> nat \<Rightarrow> real \<times> nat \<Rightarrow> real \<times> nat" where
  "scoreInner this xs i j (totalScore, comparisons) =
     (if j < length xs then
        scoreInner this xs i (j + 1)
          (totalScore + (calculateColorCompatibility this (xs ! i) (xs ! j)
                         + calculateStyleCompatibility (xs ! i) (xs ! j)) / 2,
           comparisons + 1)
      else (totalScore, comparisons))"
  by pat_completeness auto
termination
  by (relation "measure (\<lambda>(this, xs, i, j, acc). length xs - j)") auto

function scoreOuter ::
  "IntelligentService \<Rightarrow> ClothingItem list \<Rightarrow> nat \<Rightarrow> real \<times> nat \<Rightarrow> real \<times> nat" where
  "scoreOuter this xs i acc =
     (if i < length xs then scoreOuter this xs (i + 1) (scoreInner this xs i (i + 1) acc)
      else acc)"
  by pat_completeness auto
termination
  by (relation "measure (\<lambda>(this, xs, i, acc). length xs - i)") auto

definition calculateOutfitScore :: "IntelligentService \<Rightarrow> ClothingItem list \<Rightarrow> real" where
  "calculateOutfitScore this xs =
     (if length xs < 2 then 0
      else (case scoreOuter this xs 0 (0, 0) of
              (totalScore, comparisons) \<Rightarrow>
                if comparisons > 0 then totalScore / real comparisons else 0))"

definition classifyOutfitStyle :: "ClothingItem list \<Rightarrow> string" where
  "classifyOutfitStyle xs =
     (let categories = map (\<lambda>item. toLowerCase (category item)) xs in
      if ''dress'' \<in> set categories then ''Elegant''
      else if ''shirt'' \<in> set categories \<and> ''jeans'' \<in> set categories then ''Smart Casual''
      else if ''t-shirt'' \<in> set categories \<and> ''jeans'' \<in> set categories then ''Casual''
      else if ''sweatpants'' \<in> set categories \<or> ''shorts'' \<in> set categories then ''Athletic''
      else ''Casual'')"

definition generateRecommendationReason :: "ClothingItem list \<Rightarrow> real \<Rightarrow> string \<Rightarrow> string option" where
  "generateRecommendationReason xs sc st =
     (let reasons = [
        ''Great '' @ toLowerCase st @ '' combination with excellent color harmony'',
        ''Perfect '' @ toLowerCase st @ '' look with complementary colors'',
        ''Stylish '' @ toLowerCase st @ '' outfit with balanced proportions'',
        ''Classic '' @ toLowerCase st @ '' pairing that works for many occasions'',
        ''Trendy '' @ toLowerCase st @ '' combination with modern appeal''];
          index = \<lfloor>sc * real (length reasons)\<rfloor>;
          m = min index (int (length reasons) - 1)
      in if m < 0 then None else Some (reasons ! nat m))"

subsection \<open>Filters\<close>

definition occasionMap :: "string \<rightharpoonup> string list" where
  "occasionMap = map_of [
     (''Casual'', [''T-shirt'', ''Shirt'', ''Jeans'', ''Sweatpants'', ''Shorts'', ''Hoodie'', ''Shoes'']),
     (''Formal'', [''Shirt'', ''Dress'', ''Skirt'', ''Shoes'']),
     (''Athletic'', [''T-shirt'', ''Sweatpants'', ''Shorts'', ''Shoes'']),
     (''Business'', [''Shirt'', ''Dress'', ''Skirt'', ''Shoes''])]"

definition filterByOccasion :: "ClothingItem list \<Rightarrow> string \<Rightarrow> ClothingItem list" where
  "filterByOccasion xs occasion =
     (let allowed = (case occasionMap occasion of Some cs \<Rightarrow> cs | None \<Rightarrow> [])
      in filter (\<lambda>item. category item \<in> set allowed) xs)"

definition weatherMap :: "string \<rightharpoonup> string list" where
  "weatherMap = map_of [
     (''Hot'', [''T-shirt'', ''Shorts'', ''Skirt'', ''Dress'', ''Hat'', ''Shoes'']),
     (''Mild'', [''T-shirt'', ''Shirt'', ''Jeans'', ''Shorts'', ''Skirt'', ''Dress'', ''Shoes'']),
     (''Cold'', [''Jacket'', ''Sweatpants'', ''Jeans'', ''Shirt'', ''Hat'', ''Shoes'']),
     (''Rainy'', [''Jacket'', ''Jeans'', ''Sweatpants'', ''Shirt'', ''Hat'', ''Shoes''])]"

text \<open>An optional string parameter is truthy when it is given and not empty.\<close>

definition truthy :: "string option \<Rightarrow> bool" where
  "truthy s = (case s of None \<Rightarrow> False | Some t \<Rightarrow> t \<noteq> [])"

definition filteredItems :: "ClothingItem list \<Rightarrow> string option \<Rightarrow> string option \<Rightarrow> ClothingItem list" where
  "filteredItems clothingItems occasion weather =
     (let f1 = (case occasion of
                  Some oc \<Rightarrow> if oc \<noteq> [] then filterByOccasion clothingItems oc else clothingItems
                | None \<Rightarrow> clothingItems)
      in case weather of
           Some w \<Rightarrow>
             if w \<noteq> [] then
               (let allowed = (case weatherMap w of Some cs \<Rightarrow> cs | None \<Rightarrow> [])
                in filter (\<lambda>item. category item \<in> set allowed) f1)
             else f1
         | None \<Rightarrow> f1)"

subsection \<open>Generating one candidate outfit\<close>

definition outfitTemplate :: "string list list" where
  "outfitTemplate = [
     [''T-shirt'', ''Shirt'', ''Dress'', ''Hoodie'', ''Jacket''],
     [''Jeans'', ''Sweatpants'', ''Shorts'', ''Skirt''],
     [''Shoes''],
     [''Hat'']]"

text \<open>\<open>xs[Math.floor(Math.random() * xs.length)]\<close>, for the draw \<open>d\<close>.\<close>

definition pickRandom :: "'a list \<Rightarrow> draw \<Rightarrow> 'a" where
  "pickRandom xs d = xs ! nat \<lfloor>draw_value d * real (length xs)\<rfloor>"

text \<open>The state of \<open>generateSingleOutfitWithRequired\<close>: \<open>items\<close>, \<open>usedCategories\<close> and
  the position in the random source.\<close>

type_synonym build = "ClothingItem list \<times> string set \<times> nat"

text \<open>Strategies 1 and 2: the first dress of the list (\<open>Array.prototype.find\<close>), else a
  random top and a random bottom.\<close>

definition pickBase :: "ClothingItem list \<Rightarrow> string list list \<Rightarrow> (nat \<Rightarrow> draw) \<Rightarrow> nat \<Rightarrow> build" where
  "pickBase clothingItems template rnd p =
     (case find (\<lambda>item. category item = ''Dress'') clothingItems of
        Some dress \<Rightarrow> ([dress], {''Dress''}, p)
      | None \<Rightarrow>
          (let tops = filter (\<lambda>item. category item \<in> set (template ! 0)) clothingItems;
               b1 = (if length tops > 0 then
                       (let top = pickRandom tops (rnd p) in ([top], {category top}, p + 1))
                     else ([], {}, p));
               bottoms = filter (\<lambda>item. category item \<in> set (template ! 1)) clothingItems
           in if length bottoms > 0 then
                (case b1 of (xs, used, q) \<Rightarrow>
                   (let bottom = pickRandom bottoms (rnd q)
                    in (xs @ [bottom], insert (category bottom) used, q + 1)))
              else b1))"

text \<open>Strategy 3: the body of the loop over \<open>requiredCategories\<close>.\<close>

definition addRequired :: "ClothingItem list \<Rightarrow> (nat \<Rightarrow> draw) \<Rightarrow> string \<Rightarrow> build \<Rightarrow> build" where
  "addRequired clothingItems rnd cat b =
     (case b of (xs, used, q) \<Rightarrow>
        if cat \<notin> used then
          (let candidates = filter (\<lambda>item. category item = cat) clothingItems
           in if length candidates > 0 then
                (xs @ [pickRandom candidates (rnd q)], insert cat used, q + 1)
              else b)
        else b)"

text \<open>Strategy 4: the three accessory blocks differ in the category and the threshold
  only. \<open>&&\<close> evaluates from the left: \<open>Math.random()\<close> is called when there is a
  candidate, before \<open>usedCategories\<close> is read.\<close>

definition addAccessory ::
  "ClothingItem list \<Rightarrow> (nat \<Rightarrow> draw) \<Rightarrow> string \<Rightarrow> real \<Rightarrow> build \<Rightarrow> build" where
  "addAccessory clothingItems rnd cat threshold b =
     (case b of (xs, used, q) \<Rightarrow>
        (let candidates = filter (\<lambda>item. category item = cat) clothingItems
         in if length candidates > 0 then
              (if draw_value (rnd q) > threshold \<and> cat \<notin> used then
                 (xs @ [pickRandom candidates (rnd (q + 1))], insert cat used, q + 2)
               else (xs, used, q + 1))
            else b))"

text \<open>Returns \<open>items\<close> and the position reached in the random source.\<close>

definition generateSingleOutfitWithRequired ::
  "ClothingItem list \<Rightarrow> string list list \<Rightarrow> string list \<Rightarrow> (nat \<Rightarrow> draw) \<Rightarrow> nat
     \<Rightarrow> ClothingItem list \<times> nat" where
  "generateSingleOutfitWithRequired clothingItems template requiredCategories rnd p =
     (let b0 = pickBase clothingItems template rnd p;
          b1 = fold (addRequired clothingItems rnd) requiredCategories b0;
          b2 = addAccessory clothingItems rnd ''Shoes'' 0.3 b1;
          b3 = addAccessory clothingItems rnd ''Hat'' 0.5 b2;
          b4 = addAccessory clothingItems rnd ''Other'' 0.7 b3
      in (fst b4, snd (snd b4)))"

subsection \<open>The recommendation loop\<close>

record loopState =
  recommendations :: "OutfitRecommendation list"
  seen :: "string set"
  attempts :: nat
  pos :: nat

text \<open>The object that the loop pushes for an accepted outfit: score, style and reason
  are computed in this order.\<close>

definition makeRecommendation :: "IntelligentService \<Rightarrow> ClothingItem list \<Rightarrow> OutfitRecommendation" where
  "makeRecommendation this outfit =
     (let sc = calculateOutfitScore this outfit;
          sty = classifyOutfitStyle outfit;
          rsn = generateRecommendationReason outfit sc sty
      in \<lparr>items = outfit, score = sc, reason = rsn, style = sty\<rparr>)"

text \<open>One pass through the body of the \<open>while\<close> loop.\<close>

definition attempt ::
  "IntelligentService \<Rightarrow> ClothingItem list \<Rightarrow> string list \<Rightarrow> (nat \<Rightarrow> draw) \<Rightarrow> loopState \<Rightarrow> loopState" where
  "attempt this pool requiredCategories rnd st =
     (case generateSingleOutfitWithRequired pool outfitTemplate requiredCategories rnd (pos st) of
        (outfit, q) \<Rightarrow>
          if length outfit < 2 then st\<lparr>attempts := attempts st + 1, pos := q\<rparr>
          else
            (let key = join ''|'' (sort (map uri outfit)) in
             if key \<notin> seen st then
               st\<lparr>recommendations := recommendations st @ [makeRecommendation this outfit],
                  seen := insert key (seen st),
                  attempts := attempts st + 1, pos := q\<rparr>
             else st\<lparr>attempts := attempts st + 1, pos := q\<rparr>))"

function recommendLoop ::
  "IntelligentService \<Rightarrow> ClothingItem list \<Rightarrow> string list \<Rightarrow> nat \<Rightarrow> (nat \<Rightarrow> draw) \<Rightarrow> loopState
     \<Rightarrow> loopState" where
  "recommendLoop this pool requiredCategories numRecommendations rnd st =
     (if length (recommendations st) < numRecommendations
         \<and> attempts st < numRecommendations * 10
      then recommendLoop this pool requiredCategories numRecommendations rnd
             (attempt this pool requiredCategories rnd st)
      else st)"
  by pat_completeness auto
termination
  by (relation "measure (\<lambda>(this, pool, req, n, rnd, st). n * 10 - attempts st)")
    (auto simp: attempt_def Let_def split: prod.splits)

text \<open>\<open>Array.prototype.sort(comparefn)\<close> is stable (ECMAScript 2019): an element moves
  behind another one only where \<open>comparefn\<close> of the two is positive. It is modelled as the
  stable insertion sort.\<close>

fun insertSorted :: "('a \<Rightarrow> 'a \<Rightarrow> real) \<Rightarrow> 'a \<Rightarrow> 'a list \<Rightarrow> 'a list" where
  "insertSorted comparefn x [] = [x]"
| "insertSorted comparefn x (y # ys) =
     (if comparefn x y > 0 then y # insertSorted comparefn x ys else x # y # ys)"

definition arraySort :: "('a \<Rightarrow> 'a \<Rightarrow> real) \<Rightarrow> 'a list \<Rightarrow> 'a list" where
  "arraySort comparefn xs = foldr (insertSorted comparefn) xs []"

definition initialLoopState :: loopState where
  "initialLoopState = \<lparr>recommendations = [], seen = {}, attempts = 0, pos = 0\<rparr>"

text \<open>The list \<open>recommendations\<close> when the loop ends, in the order of generation.\<close>

definition collectRecommendations ::
  "IntelligentService \<Rightarrow> ClothingItem list \<Rightarrow> nat \<Rightarrow> string option \<Rightarrow> string option
     \<Rightarrow> string list \<Rightarrow> (nat \<Rightarrow> draw) \<Rightarrow> OutfitRecommendation list" where
  "collectRecommendations this clothingItems numRecommendations occasion weather
       requiredCategories rnd =
     recommendations (recommendLoop this (filteredItems clothingItems occasion weather)
       requiredCategories numRecommendations rnd initialLoopState)"

definition generateOutfitRecommendations ::
  "IntelligentService \<Rightarrow> ClothingItem list \<Rightarrow> nat \<Rightarrow> string option \<Rightarrow> string option
     \<Rightarrow> string list \<Rightarrow> (nat \<Rightarrow> draw) \<Rightarrow> OutfitRecommendation list" where
  "generateOutfitRecommendations this clothingItems numRecommendations occasion weather
       requiredCategories rnd =
     arraySort (\<lambda>a b. score b - score a)
       (collectRecommendations this clothingItems numRecommendations occasion weather
          requiredCategories rnd)"

subsection \<open>Feedback\<close>

text \<open>The methods that write the two feedback fields. \<open>now\<close> is the value of
  \<open>Date.now()\<close>. \<open>loadUserPreferences\<close> replaces a field when the storage holds a value for
  it; \<open>saveUserPreferences\<close> writes to the storage only and leaves \<open>this\<close> as it is.\<close>

definition rateOutfit :: "IntelligentService \<Rightarrow> string \<Rightarrow> real \<Rightarrow> nat \<Rightarrow> IntelligentService" where
  "rateOutfit this oid r now =
     this\<lparr>outfitRatings := outfitRatings this @ [\<lparr>outfitId = oid, rating = r, timestamp = now\<rparr>]\<rparr>"

definition updateStylePreferences :: "IntelligentService \<Rightarrow> string \<Rightarrow> real \<Rightarrow> IntelligentService" where
  "updateStylePreferences this cat preference =
     this\<lparr>stylePreferences := (stylePreferences this)(cat \<mapsto> preference)\<rparr>"

definition loadUserPreferences ::
  "IntelligentService \<Rightarrow> OutfitRating list option \<Rightarrow> (string \<rightharpoonup> real) option \<Rightarrow> IntelligentService" where
  "loadUserPreferences this ratings preferences =
     (let t1 = (case ratings of Some rs \<Rightarrow> this\<lparr>outfitRatings := rs\<rparr> | None \<Rightarrow> this)
      in case preferences of Some ps \<Rightarrow> t1\<lparr>stylePreferences := ps\<rparr> | None \<Rightarrow> t1)"

datatype feedback =
  RateOutfit string real nat
| UpdateStylePreferences string real
| LoadUserPreferences "OutfitRating list option" "(string \<rightharpoonup> real) option"

fun applyFeedback :: "IntelligentService \<Rightarrow> feedback \<Rightarrow> IntelligentService" where
  "applyFeedback this (RateOutfit oid r now) = rateOutfit this oid r now"
| "applyFeedback this (UpdateStylePreferences cat preference) =
     updateStylePreferences this cat preference"
| "applyFeedback this (LoadUserPreferences ratings preferences) =
     loadUserPreferences this ratings preferences"

subsection \<open>Predicates on outfits and pools\<close>

text \<open>What the comment of the loop calls a complete outfit: a dress, or a top and a
  bottom, by the categories of the template's first two layers.\<close>

definition hasDress :: "ClothingItem list \<Rightarrow> bool" where
  "hasDress xs = (''Dress'' \<in> set (map category xs))"

definition hasTop :: "ClothingItem list \<Rightarrow> bool" where
  "hasTop xs = (set (map category xs) \<inter> set (outfitTemplate ! 0) \<noteq> {})"

definition hasBottom :: "ClothingItem list \<Rightarrow> bool" where
  "hasBottom xs = (set (map category xs) \<inter> set (outfitTemplate ! 1) \<noteq> {})"

definition completeOutfit :: "ClothingItem list \<Rightarrow> bool" where
  "completeOutfit xs = (hasDress xs \<or> (hasTop xs \<and> hasBottom xs))"

text \<open>The invariant of \<open>generateSingleOutfitWithRequired\<close>: the items come from the
  pool and their categories are pairwise different and recorded in \<open>usedCategories\<close>.\<close>

definition buildInv :: "ClothingItem list \<Rightarrow> build \<Rightarrow> bool" where
  "buildInv pool b =
     (case b of (xs, used, q) \<Rightarrow>
        distinct (map category xs) \<and> category ` set xs \<subseteq> used \<and> set xs \<subseteq> set pool)"

subsection \<open>Example inputs\<close>

definition tshirtA :: ClothingItem where
  "tshirtA = \<lparr>uri = ''a'', category = ''T-shirt'', color = ''red''\<rparr>"

definition jeansB :: ClothingItem where
  "jeansB = \<lparr>uri = ''b'', category = ''Jeans'', color = ''blue''\<rparr>"

definition shortsC :: ClothingItem where
  "shortsC = \<lparr>uri = ''c'', category = ''Shorts'', color = ''Black''\<rparr>"

definition dressD :: ClothingItem where
  "dressD = \<lparr>uri = ''d'', category = ''Dress'', color = ''navy''\<rparr>"

definition dressE :: ClothingItem where
  "dressE = \<lparr>uri = ''e'', category = ''Dress'', color = ''green''\<rparr>"

definition shoesS :: ClothingItem where
  "shoesS = \<lparr>uri = ''s'', category = ''Shoes'', color = ''white''\<rparr>"

text \<open>A random source: \<open>0.5\<close> at position 3, \<open>0\<close> everywhere else.\<close>

definition exampleRnd :: "nat \<Rightarrow> draw" where
  "exampleRnd k = (if k = 3 then drawHalf else drawZero)"

section \<open>Properties\<close>

subsection \<open>Dictionaries built in a loop\<close>

lemma fold_upd_apply:
  "fold (\<lambda>k m. m(k \<mapsto> f k)) ks m0 k' = (if k' \<in> set ks then Some (f k') else m0 k')"
  by (induction ks arbitrary: m0) auto

lemma matrixRow_apply:
  "matrixRow a b = (if b \<in> set colors then Some (matrixEntry a b) else None)"
  by (simp add: matrixRow_def fold_upd_apply)

lemma newService_matrix:
  "colorCompatibilityMatrix newService a = (if a \<in> set colors then Some (matrixRow a) else None)"
  by (simp add: newService_def initializeColorCompatibilityMatrix_def fold_upd_apply)

lemma newService_lookup2:
  "lookup2 (colorCompatibilityMatrix newService) a b =
     (if a \<in> set colors \<and> b \<in> set colors then Some (matrixEntry a b) else None)"
  by (simp add: lookup2_def newService_matrix matrixRow_apply)

lemma matrixEntry_sym:
  "a \<in> set colors \<Longrightarrow> b \<in> set colors \<Longrightarrow> matrixEntry a b = matrixEntry b a"
  unfolding colors_def
  by (auto simp: matrixEntry_def lookup2_def compatibilityRules_def)

lemma matrixEntry_diag: "matrixEntry a a = 1"
  by (simp add: matrixEntry_def)

subsection \<open>C9: the colour matrix is symmetric with unit diagonal\<close>

text \<open>
  C9. In the matrix that the constructor builds, for all canonical colours \<open>a\<close>, \<open>b\<close>
  (the 11 entries of \<open>colors\<close>) the entry \<open>[a][b]\<close> is present, it equals the entry
  \<open>[b][a]\<close>, and the entry \<open>[a][a]\<close> is \<open>1.0\<close>.
\<close>

theorem colorCompatibilityMatrix_symmetric_unit_diagonal:
  assumes "a \<in> set colors" and "b \<in> set colors"
  shows "lookup2 (colorCompatibilityMatrix newService) a b = Some (matrixEntry a b)
       \<and> lookup2 (colorCompatibilityMatrix newService) a b
           = lookup2 (colorCompatibilityMatrix newService) b a
       \<and> lookup2 (colorCompatibilityMatrix newService) a a = Some 1"
  using assms by (simp add: newService_lookup2 matrixEntry_sym matrixEntry_diag)

theorem colorCompatibilityMatrix_symmetric_unit_diagonal_witness:
  "length colors = 11 \<and> ''red'' \<in> set colors \<and> ''blue'' \<in> set colors
     \<and> lookup2 (colorCompatibilityMatrix newService) ''red'' ''blue'' = Some 0.7
     \<and> lookup2 (colorCompatibilityMatrix newService) ''blue'' ''red'' = Some 0.7
     \<and> lookup2 (colorCompatibilityMatrix newService) ''red'' ''red'' = Some 1"
proof -
  have r: "''red'' \<in> set colors" and b: "''blue'' \<in> set colors"
    by (simp_all add: colors_def)
  have e: "matrixEntry ''red'' ''blue'' = 0.7"
    by (simp add: matrixEntry_def lookup2_def compatibilityRules_def)
  have n: "length colors = 11"
    by (simp add: colors_def)
  from colorCompatibilityMatrix_symmetric_unit_diagonal [OF r b]
  have "lookup2 (colorCompatibilityMatrix newService) ''red'' ''blue'' = Some 0.7"
    and "lookup2 (colorCompatibilityMatrix newService) ''blue'' ''red'' = Some 0.7"
    and "lookup2 (colorCompatibilityMatrix newService) ''red'' ''red'' = Some 1"
    unfolding e by metis+
  with r b n show ?thesis by blast
qed

subsection \<open>C5: the direction of the style table\<close>

text \<open>
  C5, as stated, fails: a dress then a skirt and a skirt then a dress both score
  \<open>0.6\<close>.
\<close>

theorem styleCompatibility_dress_skirt_counterexample:
  "calculateStyleCompatibility \<lparr>uri = ''d'', category = ''Dress'', color = ''red''\<rparr>
       \<lparr>uri = ''s'', category = ''Skirt'', color = ''blue''\<rparr> = 0.6
   \<and> calculateStyleCompatibility \<lparr>uri = ''s'', category = ''Skirt'', color = ''blue''\<rparr>
       \<lparr>uri = ''d'', category = ''Dress'', color = ''red''\<rparr> = 0.6"
  by (simp add: calculateStyleCompatibility_def toLowerCase_def lowerChar_def styleRules_def
      lookup2_def orElse_def)

text \<open>
  C5, amended. The style table is direction-sensitive, but not for the dress/skirt pair,
  which scores \<open>0.6\<close> in both directions whatever the items' other fields are. The
  direction matters where only one of the two categories has a row of its own: a
  T-shirt then shorts scores \<open>0.8\<close>, shorts then a T-shirt the default \<open>0.5\<close>.
\<close>

theorem styleCompatibility_direction:
  "calculateStyleCompatibility \<lparr>uri = u, category = ''Dress'', color = c\<rparr>
       \<lparr>uri = u', category = ''Skirt'', color = c'\<rparr>
     = calculateStyleCompatibility \<lparr>uri = u', category = ''Skirt'', color = c'\<rparr>
         \<lparr>uri = u, category = ''Dress'', color = c\<rparr>
   \<and> calculateStyleCompatibility \<lparr>uri = u, category = ''T-shirt'', color = c\<rparr>
       \<lparr>uri = u', category = ''Shorts'', color = c'\<rparr> = 0.8
   \<and> calculateStyleCompatibility \<lparr>uri = u', category = ''Shorts'', color = c'\<rparr>
       \<lparr>uri = u, category = ''T-shirt'', color = c\<rparr> = 0.5"
  by (simp add: calculateStyleCompatibility_def toLowerCase_def lowerChar_def styleRules_def
      lookup2_def orElse_def)

subsection \<open>C2: the score is the mean over the pairs\<close>

declare scoreInner.simps [simp del] scoreOuter.simps [simp del]

lemma scoreInner_eq:
  "scoreInner this xs i j (t, c) =
     (t + (\<Sum>k = j..<length xs. pairScore this (xs ! i) (xs ! k)), c + (length xs - j))"
proof (induction this xs i j "(t, c)" arbitrary: t c rule: scoreInner.induct)
  case (1 this xs i j totalScore comparisons)
  show ?case
  proof (cases "j < length xs")
    case True
    then show ?thesis
      using "1" [OF True]
      by (subst scoreInner.simps) (simp add: sum.atLeast_Suc_lessThan pairScore_def add.assoc)
  next
    case False
    then show ?thesis by (subst scoreInner.simps) simp
  qed
qed

lemma scoreOuter_eq:
  "scoreOuter this xs i (t, c) =
     (t + (\<Sum>a = i..<length xs. \<Sum>k = a + 1..<length xs. pairScore this (xs ! a) (xs ! k)),
      c + (\<Sum>a = i..<length xs. length xs - (a + 1)))"
proof (induction this xs i "(t, c)" arbitrary: t c rule: scoreOuter.induct)
  case (1 this xs i)
  show ?case
  proof (cases "i < length xs")
    case True
    then show ?thesis
      using "1" [OF True]
      by (subst scoreOuter.simps) (simp add: scoreInner_eq sum.atLeast_Suc_lessThan add.assoc)
  next
    case False
    then show ?thesis by (subst scoreOuter.simps) simp
  qed
qed

lemma Sigma_pairs: "(SIGMA a:{0..<n::nat}. {a + 1..<n}) = {(i, j). i < j \<and> j < n}"
  by auto

lemma sum_pairs:
  "(\<Sum>a = 0..<n::nat. \<Sum>k = a + 1..<n. f a k) = (\<Sum>(i, j)\<in>{(i, j). i < j \<and> j < n}. f i j)"
  unfolding Sigma_pairs [symmetric] by (subst sum.Sigma) auto

lemma card_pairs: "(\<Sum>a = 0..<n::nat. n - (a + 1)) = card {(i, j). i < j \<and> j < n}"
  unfolding Sigma_pairs [symmetric] by (subst card_SigmaI) auto

lemma card_pairs_pos:
  assumes "2 \<le> n"
  shows "0 < card {(i::nat, j). i < j \<and> j < n}"
proof -
  from assms have "(0, 1) \<in> {(i::nat, j). i < j \<and> j < n}" by simp
  moreover have "finite {(i::nat, j). i < j \<and> j < n}"
    unfolding Sigma_pairs [symmetric] by simp
  ultimately show ?thesis by (metis card_gt_0_iff empty_iff)
qed

text \<open>The number of pairs of a list of \<open>n\<close> items is \<open>n (n - 1) / 2\<close>.\<close>

lemma card_pairs_value: "card {(i::nat, j). i < j \<and> j < n} = n * (n - 1) div 2"
proof -
  have "card {(i::nat, j). i < j \<and> j < n} = (\<Sum>a = 0..<n. n - (a + 1))"
    by (simp only: card_pairs)
  also have "\<dots> = n * (n - 1) div 2"
  proof (induction n)
    case 0
    show ?case by simp
  next
    case (Suc n)
    have "(\<Sum>a = 0..<Suc n. Suc n - (a + 1)) = (\<Sum>a = 0..<Suc n. n - a)" by simp
    also have "\<dots> = (\<Sum>a = 0..<n. n - a)" by simp
    also have "\<dots> = (\<Sum>a = 0..<n. Suc (n - (a + 1)))"
      by (rule sum.cong) auto
    also have "\<dots> = n + (\<Sum>a = 0..<n. n - (a + 1))" by (simp add: sum_Suc)
    also have "\<dots> = n + n * (n - 1) div 2" using Suc by simp
    also have "\<dots> = Suc n * (Suc n - 1) div 2"
      by (cases n) (simp_all add: algebra_simps)
    finally show ?case .
  qed
  finally show ?thesis .
qed

lemma scoreOuter_pairs:
  "scoreOuter this xs 0 (0, 0) =
     ((\<Sum>(i, j)\<in>{(i, j). i < j \<and> j < length xs}. pairScore this (xs ! i) (xs ! j)),
      card {(i, j). i < j \<and> j < length xs})"
  by (simp only: scoreOuter_eq sum_pairs card_pairs add_0)

lemma calculateOutfitScore_pair: "calculateOutfitScore this [x, y] = pairScore this x y"
  by (simp add: calculateOutfitScore_def scoreOuter_eq sum.atLeast_Suc_lessThan)

text \<open>
  C2. \<open>calculateOutfitScore\<close> returns 0 for the empty list and for a list of one item.
  For a list of two or more items it returns the sum, over the index pairs \<open>i < j\<close>,
  of \<open>(colorCompatibility + styleCompatibility) / 2\<close> of the items at \<open>i\<close> and \<open>j\<close>,
  divided by the number of these pairs. (Scores are exact reals here.)
\<close>

theorem calculateOutfitScore_mean:
  "calculateOutfitScore this [] = 0
   \<and> calculateOutfitScore this [x] = 0
   \<and> (2 \<le> length xs \<longrightarrow>
        calculateOutfitScore this xs =
          (\<Sum>(i, j)\<in>{(i, j). i < j \<and> j < length xs}. pairScore this (xs ! i) (xs ! j))
            / real (card {(i, j). i < j \<and> j < length xs}))"
proof (intro conjI impI)
  show "calculateOutfitScore this [] = 0"
    by (simp add: calculateOutfitScore_def)
  show "calculateOutfitScore this [x] = 0"
    by (simp add: calculateOutfitScore_def)
next
  assume n: "2 \<le> length xs"
  from card_pairs_pos [OF n] n
  show "calculateOutfitScore this xs =
          (\<Sum>(i, j)\<in>{(i, j). i < j \<and> j < length xs}. pairScore this (xs ! i) (xs ! j))
            / real (card {(i, j). i < j \<and> j < length xs})"
    by (simp add: calculateOutfitScore_def scoreOuter_pairs)
qed

theorem calculateOutfitScore_mean_witness:
  "2 \<le> length [\<lparr>uri = ''a'', category = ''T-shirt'', color = ''red''\<rparr>,
                 \<lparr>uri = ''b'', category = ''Jeans'', color = ''blue''\<rparr>,
                 \<lparr>uri = ''s'', category = ''Shoes'', color = ''Black''\<rparr>]
   \<and> calculateOutfitScore newService
        [\<lparr>uri = ''a'', category = ''T-shirt'', color = ''red''\<rparr>,
         \<lparr>uri = ''b'', category = ''Jeans'', color = ''blue''\<rparr>,
         \<lparr>uri = ''s'', category = ''Shoes'', color = ''Black''\<rparr>]
      = (\<Sum>(i, j)\<in>{(i, j). i < j \<and> j < 3}.
           pairScore newService
             ([\<lparr>uri = ''a'', category = ''T-shirt'', color = ''red''\<rparr>,
               \<lparr>uri = ''b'', category = ''Jeans'', color = ''blue''\<rparr>,
               \<lparr>uri = ''s'', category = ''Shoes'', color = ''Black''\<rparr>] ! i)
             ([\<lparr>uri = ''a'', category = ''T-shirt'', color = ''red''\<rparr>,
               \<lparr>uri = ''b'', category = ''Jeans'', color = ''blue''\<rparr>,
               \<lparr>uri = ''s'', category = ''Shoes'', color = ''Black''\<rparr>] ! j))
          / real (card {(i::nat, j). i < j \<and> j < 3})
   \<and> card {(i::nat, j). i < j \<and> j < 3} = 3"
proof -
  have l: "length [\<lparr>uri = ''a'', category = ''T-shirt'', color = ''red''\<rparr>,
                 \<lparr>uri = ''b'', category = ''Jeans'', color = ''blue''\<rparr>,
                 \<lparr>uri = ''s'', category = ''Shoes'', color = ''Black''\<rparr>] = 3"
    by simp
  have c: "card {(i::nat, j). i < j \<and> j < 3} = 3"
    by (simp add: card_pairs_value)
  from calculateOutfitScore_mean [of newService "\<lparr>uri = ''a'', category = ''T-shirt'', color = ''red''\<rparr>"
      "[\<lparr>uri = ''a'', category = ''T-shirt'', color = ''red''\<rparr>,
        \<lparr>uri = ''b'', category = ''Jeans'', color = ''blue''\<rparr>,
        \<lparr>uri = ''s'', category = ''Shoes'', color = ''Black''\<rparr>]"] c
  show ?thesis unfolding l by simp
qed

subsection \<open>Candidates: items of the pool with pairwise different categories\<close>

lemma draw_index: "0 < n \<Longrightarrow> nat \<lfloor>draw_value d * real n\<rfloor> < n"
proof -
  assume n: "0 < n"
  have r: "0 \<le> draw_value d" "draw_value d < 1" using draw_value [of d] by auto
  then have "draw_value d * real n < real n" using n by simp
  then have "\<lfloor>draw_value d * real n\<rfloor> < int n" by (simp add: floor_less_iff)
  moreover have "0 \<le> \<lfloor>draw_value d * real n\<rfloor>" using r by simp
  ultimately show ?thesis by linarith
qed

lemma pickRandom_mem: "xs \<noteq> [] \<Longrightarrow> pickRandom xs d \<in> set xs"
  by (simp add: pickRandom_def draw_index)

lemma pickRandom_single [simp]: "pickRandom [x] d = x"
  using pickRandom_mem [of "[x]" d] by simp

lemma pickRandom_filter:
  "filter P xs \<noteq> [] \<Longrightarrow> pickRandom (filter P xs) d \<in> set xs \<and> P (pickRandom (filter P xs) d)"
  using pickRandom_mem [of "filter P xs" d] by simp

lemma template_disjoint:
  "c \<in> set (outfitTemplate ! 0) \<Longrightarrow> c \<in> set (outfitTemplate ! Suc 0) \<Longrightarrow> False"
  by (auto simp: outfitTemplate_def)

lemma pickBase_inv: "buildInv pool (pickBase pool outfitTemplate rnd p)"
proof (cases "find (\<lambda>item. category item = ''Dress'') pool")
  case None
  define tops where "tops = filter (\<lambda>item. category item \<in> set (outfitTemplate ! 0)) pool"
  define bottoms where "bottoms = filter (\<lambda>item. category item \<in> set (outfitTemplate ! Suc 0)) pool"
  have t: "pickRandom tops d \<in> set pool \<and> category (pickRandom tops d) \<in> set (outfitTemplate ! 0)"
    if "tops \<noteq> []" for d
    using that pickRandom_filter [of "\<lambda>item. category item \<in> set (outfitTemplate ! 0)" pool d]
    by (simp add: tops_def)
  have b: "pickRandom bottoms d \<in> set pool
      \<and> category (pickRandom bottoms d) \<in> set (outfitTemplate ! Suc 0)"
    if "bottoms \<noteq> []" for d
    using that pickRandom_filter [of "\<lambda>item. category item \<in> set (outfitTemplate ! Suc 0)" pool d]
    by (simp add: bottoms_def)
  have ne: "category (pickRandom tops d) \<noteq> category (pickRandom bottoms e)"
    if "tops \<noteq> []" "bottoms \<noteq> []" for d e
    using t [OF that(1), of d] b [OF that(2), of e] template_disjoint by fastforce
  show ?thesis
    using None t b ne
    by (simp add: pickBase_def buildInv_def Let_def flip: tops_def bottoms_def)
next
  case (Some dress)
  then have "dress \<in> set pool" and "category dress = ''Dress''"
    by (auto simp: find_Some_iff)
  with Some show ?thesis
    by (simp add: pickBase_def buildInv_def)
qed

lemma addRequired_inv: "buildInv pool b \<Longrightarrow> buildInv pool (addRequired pool rnd cat b)"
  using pickRandom_filter [of "\<lambda>item. category item = cat" pool]
  by (auto simp: addRequired_def buildInv_def Let_def split: prod.splits)

lemma addAccessory_inv: "buildInv pool b \<Longrightarrow> buildInv pool (addAccessory pool rnd cat t b)"
  using pickRandom_filter [of "\<lambda>item. category item = cat" pool]
  by (auto simp: addAccessory_def buildInv_def Let_def split: prod.splits)

lemma fold_addRequired_inv:
  "buildInv pool b \<Longrightarrow> buildInv pool (fold (addRequired pool rnd) cats b)"
  by (induction cats arbitrary: b) (simp_all add: addRequired_inv)

lemma generateSingle_inv:
  "generateSingleOutfitWithRequired pool outfitTemplate req rnd p = (xs, q) \<Longrightarrow>
     distinct (map category xs) \<and> set xs \<subseteq> set pool"
proof -
  assume g: "generateSingleOutfitWithRequired pool outfitTemplate req rnd p = (xs, q)"
  let ?b = "addAccessory pool rnd ''Other'' 0.7 (addAccessory pool rnd ''Hat'' 0.5
     (addAccessory pool rnd ''Shoes'' 0.3 (fold (addRequired pool rnd) req (pickBase pool outfitTemplate rnd p))))"
  have "buildInv pool ?b"
    by (intro addAccessory_inv fold_addRequired_inv pickBase_inv)
  moreover have "xs = fst ?b" using g by (simp add: generateSingleOutfitWithRequired_def Let_def)
  ultimately show ?thesis by (auto simp: buildInv_def split: prod.splits)
qed

subsection \<open>The loop and the final sort\<close>

declare recommendLoop.simps [simp del]

lemma attempt_cases:
  obtains (skip) q where "attempt this pool req rnd st = st\<lparr>attempts := attempts st + 1, pos := q\<rparr>"
  | (push) outfit q where
      "generateSingleOutfitWithRequired pool outfitTemplate req rnd (pos st) = (outfit, q)"
      "2 \<le> length outfit"
      "join ''|'' (sort (map uri outfit)) \<notin> seen st"
      "attempt this pool req rnd st =
         st\<lparr>recommendations := recommendations st @ [makeRecommendation this outfit],
            seen := insert (join ''|'' (sort (map uri outfit))) (seen st),
            attempts := attempts st + 1, pos := q\<rparr>"
proof (cases "generateSingleOutfitWithRequired pool outfitTemplate req rnd (pos st)")
  case (Pair outfit q)
  show ?thesis
  proof (cases "2 \<le> length outfit \<and> join ''|'' (sort (map uri outfit)) \<notin> seen st")
    case True
    then show ?thesis using Pair push [of outfit q] by (simp add: attempt_def Let_def)
  next
    case False
    then show ?thesis using Pair skip [of q] by (auto simp: attempt_def Let_def)
  qed
qed

lemma recommendLoop_unfold:
  "recommendLoop this pool req n rnd st =
     (if length (recommendations st) < n \<and> attempts st < n * 10
      then recommendLoop this pool req n rnd (attempt this pool req rnd st) else st)"
  by (subst recommendLoop.simps) (rule refl)

lemma recommendLoop_all:
  "(\<And>p outfit q.
      generateSingleOutfitWithRequired pool outfitTemplate req rnd p = (outfit, q) \<Longrightarrow>
      2 \<le> length outfit \<Longrightarrow> Q (makeRecommendation this outfit)) \<Longrightarrow>
   (\<And>r. r \<in> set (recommendations st) \<Longrightarrow> Q r) \<Longrightarrow>
   r \<in> set (recommendations (recommendLoop this pool req n rnd st)) \<Longrightarrow> Q r"
proof (induction this pool req n rnd st rule: recommendLoop.induct)
  case (1 this pool req n rnd st)
  show ?case
  proof (cases "length (recommendations st) < n \<and> attempts st < n * 10")
    case True
    have a: "Q r'" if "r' \<in> set (recommendations (attempt this pool req rnd st))" for r'
    proof (cases rule: attempt_cases [of this pool req rnd st])
      case (skip q)
      then show ?thesis using that "1.prems"(2) by simp
    next
      case (push outfit q)
      then show ?thesis using that "1.prems"(2) "1.prems"(1) [OF push(1,2)] by auto
    qed
    from "1.prems"(3) True
    have "r \<in> set (recommendations (recommendLoop this pool req n rnd
             (attempt this pool req rnd st)))"
      by (subst (asm) recommendLoop_unfold) simp
    then show ?thesis
    proof (rule "1.IH" [OF True, rotated 2])
      show "Q (makeRecommendation this outfit)"
        if "generateSingleOutfitWithRequired pool outfitTemplate req rnd p = (outfit, q)"
          and "2 \<le> length outfit" for p outfit q
        using that by (rule "1.prems"(1))
      show "Q r'" if "r' \<in> set (recommendations (attempt this pool req rnd st))" for r'
        using that by (rule a)
    qed
  next
    case False
    then have "recommendLoop this pool req n rnd st = st"
      by (subst recommendLoop_unfold) auto
    then show ?thesis using "1.prems" by simp
  qed
qed

lemma recommendLoop_length:
  "length (recommendations st) \<le> n \<Longrightarrow>
     length (recommendations (recommendLoop this pool req n rnd st)) \<le> n"
proof (induction this pool req n rnd st rule: recommendLoop.induct)
  case (1 this pool req n rnd st)
  show ?case
  proof (cases "length (recommendations st) < n \<and> attempts st < n * 10")
    case True
    have "length (recommendations (attempt this pool req rnd st)) \<le> n"
      using True by (cases rule: attempt_cases [of this pool req rnd st]) simp_all
    then show ?thesis
      using "1.IH" [OF True] True by (subst recommendLoop_unfold) simp
  next
    case False
    then have "recommendLoop this pool req n rnd st = st"
      by (subst recommendLoop_unfold) auto
    then show ?thesis using "1.prems" by simp
  qed
qed

lemma recommendLoop_none:
  "(\<And>p. length (fst (generateSingleOutfitWithRequired pool outfitTemplate req rnd p)) < 2) \<Longrightarrow>
     recommendations (recommendLoop this pool req n rnd st) = recommendations st"
proof (induction this pool req n rnd st rule: recommendLoop.induct)
  case (1 this pool req n rnd st)
  show ?case
  proof (cases "length (recommendations st) < n \<and> attempts st < n * 10")
    case True
    have "recommendations (attempt this pool req rnd st) = recommendations st"
    proof (cases rule: attempt_cases [of this pool req rnd st])
      case (skip q)
      then show ?thesis by simp
    next
      case (push outfit q)
      then show ?thesis using "1.prems" [of "pos st"] by simp
    qed
    then show ?thesis
      using "1.IH" [OF True "1.prems"] True by (subst recommendLoop_unfold) simp
  next
    case False
    then have "recommendLoop this pool req n rnd st = st"
      by (subst recommendLoop_unfold) auto
    then show ?thesis by simp
  qed
qed

lemma insertSorted_set: "set (insertSorted c x ys) = insert x (set ys)"
  by (induction ys) auto

lemma insertSorted_length: "length (insertSorted c x ys) = Suc (length ys)"
  by (induction ys) auto

lemma arraySort_set: "set (arraySort c xs) = set xs"
  by (induction xs) (simp_all add: arraySort_def insertSorted_set)

lemma arraySort_length: "length (arraySort c xs) = length xs"
  by (induction xs) (simp_all add: arraySort_def insertSorted_length)

lemma insertSorted_sorted:
  "sorted_wrt (\<lambda>a b. f b \<le> f a) ys \<Longrightarrow>
     sorted_wrt (\<lambda>a b. f b \<le> f a) (insertSorted (\<lambda>a b. f b - f a) x ys)"
  by (induction ys) (auto simp: insertSorted_set)

lemma arraySort_sorted:
  "sorted_wrt (\<lambda>a b. f b \<le> f a) (arraySort (\<lambda>a b. f b - f a) xs)"
  by (induction xs) (simp_all add: arraySort_def insertSorted_sorted)

lemma insertSorted_filter:
  "filter (\<lambda>r. f r = v) (insertSorted (\<lambda>a b. f b - f a) x ys) =
     filter (\<lambda>r. f r = v) (x # ys)"
  by (induction ys) auto

lemma arraySort_stable:
  "filter (\<lambda>r. f r = v) (arraySort (\<lambda>a b. f b - f a) xs) = filter (\<lambda>r. f r = v) xs"
  by (induction xs) (simp_all add: arraySort_def insertSorted_filter)

subsection \<open>A run on an example wardrobe\<close>

text \<open>Three items, two recommendations asked for: the loop accepts the T-shirt with the
  jeans, then the T-shirt with the shorts, and the sort puts the second one first.\<close>

lemma example_fields [simp]:
  "category tshirtA = ''T-shirt''" "category jeansB = ''Jeans''" "category shortsC = ''Shorts''"
  "category dressD = ''Dress''" "category dressE = ''Dress''" "category shoesS = ''Shoes''"
  "uri tshirtA = ''a''" "uri jeansB = ''b''" "uri shortsC = ''c''"
  "uri dressD = ''d''" "uri dressE = ''e''" "uri shoesS = ''s''"
  by (simp_all add: tshirtA_def jeansB_def shortsC_def dressD_def dressE_def shoesS_def)

lemma example_colors [simp]:
  "extractColorFromItem tshirtA = ''red''" "extractColorFromItem jeansB = ''blue''"
  "extractColorFromItem shortsC = ''black''"
  by (simp_all add: extractColorFromItem_def colorMapping_def toLowerCase_def lowerChar_def
      tshirtA_def jeansB_def shortsC_def)

lemma example_entries:
  "matrixEntry ''red'' ''blue'' = 0.7" "matrixEntry ''red'' ''black'' = 0.9"
  by (simp_all add: matrixEntry_def lookup2_def compatibilityRules_def)

lemma example_colorScores:
  "calculateColorCompatibility newService tshirtA jeansB = 0.7"
  "calculateColorCompatibility newService tshirtA shortsC = 0.9"
  by (simp_all add: calculateColorCompatibility_def newService_lookup2 example_entries
      colors_def orElse_def)

lemma example_styleScores:
  "calculateStyleCompatibility tshirtA jeansB = 0.9"
  "calculateStyleCompatibility tshirtA shortsC = 0.8"
  by (simp_all add: calculateStyleCompatibility_def styleRules_def lookup2_def orElse_def
      toLowerCase_def lowerChar_def)

lemma example_pairScores:
  "pairScore newService tshirtA jeansB = 0.8" "pairScore newService tshirtA shortsC = 0.85"
  by (simp_all add: pairScore_def example_colorScores example_styleScores)

lemma example_gen1:
  "generateSingleOutfitWithRequired [tshirtA, jeansB, shortsC] outfitTemplate [] exampleRnd 0
     = ([tshirtA, jeansB], 2)"
  by (simp add: generateSingleOutfitWithRequired_def pickBase_def addAccessory_def
      outfitTemplate_def pickRandom_def exampleRnd_def drawZero.rep_eq drawHalf.rep_eq Let_def)

lemma example_gen2:
  "generateSingleOutfitWithRequired [tshirtA, jeansB, shortsC] outfitTemplate [] exampleRnd 2
     = ([tshirtA, shortsC], 4)"
  by (simp add: generateSingleOutfitWithRequired_def pickBase_def addAccessory_def
      outfitTemplate_def pickRandom_def exampleRnd_def drawZero.rep_eq drawHalf.rep_eq Let_def)

lemma example_rec1:
  "makeRecommendation newService [tshirtA, jeansB] =
     \<lparr>items = [tshirtA, jeansB], score = 0.8,
      reason = Some ''Trendy casual combination with modern appeal'', style = ''Casual''\<rparr>"
  by (simp add: makeRecommendation_def calculateOutfitScore_pair example_pairScores
      classifyOutfitStyle_def generateRecommendationReason_def toLowerCase_def lowerChar_def
      Let_def)

lemma example_rec2:
  "makeRecommendation newService [tshirtA, shortsC] =
     \<lparr>items = [tshirtA, shortsC], score = 0.85,
      reason = Some ''Trendy athletic combination with modern appeal'', style = ''Athletic''\<rparr>"
  by (simp add: makeRecommendation_def calculateOutfitScore_pair example_pairScores
      classifyOutfitStyle_def generateRecommendationReason_def toLowerCase_def lowerChar_def
      Let_def)

lemma example_collect:
  "collectRecommendations newService [tshirtA, jeansB, shortsC] 2 None None [] exampleRnd =
     [makeRecommendation newService [tshirtA, jeansB],
      makeRecommendation newService [tshirtA, shortsC]]"
  apply (simp add: collectRecommendations_def filteredItems_def initialLoopState_def)
  apply (subst recommendLoop_unfold, simp add: attempt_def example_gen1)
  apply (subst recommendLoop_unfold, simp add: attempt_def example_gen2)
  apply (subst recommendLoop_unfold, simp)
  done

lemma example_run:
  "generateOutfitRecommendations newService [tshirtA, jeansB, shortsC] 2 None None [] exampleRnd =
     [makeRecommendation newService [tshirtA, shortsC],
      makeRecommendation newService [tshirtA, jeansB]]"
  by (simp add: generateOutfitRecommendations_def example_collect arraySort_def
     example_rec1 example_rec2)

subsection \<open>Auxiliary facts about the pipeline\<close>

lemma items_makeRecommendation [simp]: "items (makeRecommendation this outfit) = outfit"
  by (simp add: makeRecommendation_def Let_def)

lemma score_makeRecommendation: "score (makeRecommendation this outfit) = calculateOutfitScore this outfit"
  by (simp add: makeRecommendation_def Let_def)

lemma style_makeRecommendation: "style (makeRecommendation this outfit) = classifyOutfitStyle outfit"
  by (simp add: makeRecommendation_def Let_def)

lemma generated_cases:
  assumes "r \<in> set (generateOutfitRecommendations this clothingItems n occ w req rnd)"
  obtains p outfit q where
    "generateSingleOutfitWithRequired (filteredItems clothingItems occ w) outfitTemplate req rnd p
       = (outfit, q)"
    "2 \<le> length outfit" "r = makeRecommendation this outfit"
proof -
  let ?Q = "\<lambda>r. \<exists>p outfit q.
     generateSingleOutfitWithRequired (filteredItems clothingItems occ w) outfitTemplate req rnd p
       = (outfit, q) \<and> 2 \<le> length outfit \<and> r = makeRecommendation this outfit"
  from assms have "r \<in> set (recommendations (recommendLoop this
      (filteredItems clothingItems occ w) req n rnd initialLoopState))"
    by (simp add: generateOutfitRecommendations_def arraySort_set collectRecommendations_def)
  then have "?Q r"
  proof (rule recommendLoop_all [where Q = ?Q, rotated 2])
    show "?Q (makeRecommendation this outfit)"
      if "generateSingleOutfitWithRequired (filteredItems clothingItems occ w) outfitTemplate
            req rnd p = (outfit, q)" and "2 \<le> length outfit" for p outfit q
      using that by blast
    show "?Q r'" if "r' \<in> set (recommendations initialLoopState)" for r'
      using that by (simp add: initialLoopState_def)
  qed
  then show thesis using that by blast
qed


lemma filteredItems_length: "length (filteredItems clothingItems occ w) \<le> length clothingItems"
proof -
  have f: "length (filter P (filter R xs)) \<le> length xs" for P R and xs :: "ClothingItem list"
    by (rule order_trans [OF length_filter_le length_filter_le])
  show ?thesis
    by (auto simp: filteredItems_def filterByOccasion_def Let_def f split: option.splits)
qed

lemma generateSingle_length:
  assumes "generateSingleOutfitWithRequired pool outfitTemplate req rnd p = (xs, q)"
  shows "length xs \<le> length pool"
proof -
  from generateSingle_inv [OF assms] have d: "distinct xs" and s: "set xs \<subseteq> set pool"
    by (auto simp: distinct_map)
  have "length xs = card (set xs)" using d by (simp add: distinct_card)
  also have "\<dots> \<le> card (set pool)" using s by (simp add: card_mono)
  also have "\<dots> \<le> length pool" by (rule card_length)
  finally show ?thesis .
qed







lemma find_append_first:
  "\<forall>x\<in>set pre. \<not> P x \<Longrightarrow> P d \<Longrightarrow> find P (pre @ d # post) = Some d"
  by (induction pre) auto

lemma addRequired_appends: "\<exists>ys. fst (addRequired pool rnd cat b) = fst b @ ys"
  by (auto simp: addRequired_def Let_def split: prod.splits)

lemma addAccessory_appends: "\<exists>ys. fst (addAccessory pool rnd cat t b) = fst b @ ys"
  by (auto simp: addAccessory_def Let_def split: prod.splits)

lemma fold_addRequired_appends: "\<exists>ys. fst (fold (addRequired pool rnd) cats b) = fst b @ ys"
proof (induction cats arbitrary: b)
  case Nil
  show ?case by simp
next
  case (Cons c cats)
  from Cons [of "addRequired pool rnd c b"] addRequired_appends [of pool rnd c b]
  show ?case by auto
qed

lemma generateSingle_appends:
  "\<exists>ys. fst (generateSingleOutfitWithRequired pool template req rnd p)
     = fst (pickBase pool template rnd p) @ ys"
proof -
  define b0 where "b0 = pickBase pool template rnd p"
  define b1 where "b1 = fold (addRequired pool rnd) req b0"
  define b2 where "b2 = addAccessory pool rnd ''Shoes'' 0.3 b1"
  define b3 where "b3 = addAccessory pool rnd ''Hat'' 0.5 b2"
  define b4 where "b4 = addAccessory pool rnd ''Other'' 0.7 b3"
  obtain y1 where "fst b1 = fst b0 @ y1"
    unfolding b1_def using fold_addRequired_appends by blast
  moreover obtain y2 where "fst b2 = fst b1 @ y2"
    unfolding b2_def using addAccessory_appends by blast
  moreover obtain y3 where "fst b3 = fst b2 @ y3"
    unfolding b3_def using addAccessory_appends by blast
  moreover obtain y4 where "fst b4 = fst b3 @ y4"
    unfolding b4_def using addAccessory_appends by blast
  ultimately have "fst b4 = fst b0 @ (y1 @ y2 @ y3 @ y4)" by simp
  moreover have "fst (generateSingleOutfitWithRequired pool template req rnd p) = fst b4"
    by (simp add: generateSingleOutfitWithRequired_def Let_def b0_def b1_def b2_def b3_def b4_def)
  ultimately show ?thesis unfolding b0_def by metis
qed

lemma base_dress_first_lemma:
  assumes "category d = ''Dress''" and "\<forall>x\<in>set pre. category x \<noteq> ''Dress''"
  shows "\<exists>rest q. generateSingleOutfitWithRequired (pre @ d # post) template req rnd p
           = (d # rest, q)"
proof -
  have "find (\<lambda>item. category item = ''Dress'') (pre @ d # post) = Some d"
    using assms by (intro find_append_first) auto
  then have "fst (pickBase (pre @ d # post) template rnd p) = [d]"
    by (simp add: pickBase_def)
  with generateSingle_appends [of "pre @ d # post" template req rnd p]
  obtain ys where "fst (generateSingleOutfitWithRequired (pre @ d # post) template req rnd p)
      = d # ys" by auto
  then show ?thesis
    by (cases "generateSingleOutfitWithRequired (pre @ d # post) template req rnd p") auto
qed


lemma recommendLoop_rejects:
  "(\<And>p. length (fst (generateSingleOutfitWithRequired pool outfitTemplate req rnd p)) < 2
        \<or> join ''|'' (sort (map uri (fst (generateSingleOutfitWithRequired pool outfitTemplate
              req rnd p)))) \<in> seen st) \<Longrightarrow>
     recommendations (recommendLoop this pool req n rnd st) = recommendations st"
proof (induction this pool req n rnd st rule: recommendLoop.induct)
  case (1 this pool req n rnd st)
  show ?case
  proof (cases "length (recommendations st) < n \<and> attempts st < n * 10")
    case True
    have a: "recommendations (attempt this pool req rnd st) = recommendations st
        \<and> seen (attempt this pool req rnd st) = seen st"
    proof (cases rule: attempt_cases [of this pool req rnd st])
      case (skip q)
      then show ?thesis by simp
    next
      case (push outfit q)
      then show ?thesis using "1.prems" [of "pos st"] by simp
    qed
    have "recommendations (recommendLoop this pool req n rnd (attempt this pool req rnd st))
        = recommendations (attempt this pool req rnd st)"
    proof (rule "1.IH" [OF True])
      fix p
      show "length (fst (generateSingleOutfitWithRequired pool outfitTemplate req rnd p)) < 2
        \<or> join ''|'' (sort (map uri (fst (generateSingleOutfitWithRequired pool outfitTemplate
              req rnd p)))) \<in> seen (attempt this pool req rnd st)"
        using "1.prems" [of p] a by simp
    qed
    then show ?thesis
      using a True by (subst recommendLoop_unfold) simp
  next
    case False
    then have "recommendLoop this pool req n rnd st = st"
      by (subst recommendLoop_unfold) auto
    then show ?thesis by simp
  qed
qed

lemma dress_only_candidate:
  assumes "category d = ''Dress''"
  shows "fst (generateSingleOutfitWithRequired [d] outfitTemplate req rnd p) = [d]"
proof -
  obtain xs q where g: "generateSingleOutfitWithRequired [d] outfitTemplate req rnd p = (xs, q)"
    by (cases "generateSingleOutfitWithRequired [d] outfitTemplate req rnd p")
  from base_dress_first_lemma [of d "[]" "[]" outfitTemplate req rnd p] assms g
  obtain rest where "xs = d # rest" by auto
  moreover from generateSingle_length [OF g] have "length xs \<le> 1" by simp
  ultimately show ?thesis using g by simp
qed

lemma tshirt_jeans_candidate:
  "generateSingleOutfitWithRequired [tshirtA, jeansB] outfitTemplate [] rnd p
     = ([tshirtA, jeansB], p + 2)"
  by (simp add: generateSingleOutfitWithRequired_def pickBase_def addAccessory_def
      outfitTemplate_def Let_def)

lemma calculateColorCompatibility_cong:
  "colorCompatibilityMatrix s = colorCompatibilityMatrix s' \<Longrightarrow>
     calculateColorCompatibility s = calculateColorCompatibility s'"
proof -
  assume "colorCompatibilityMatrix s = colorCompatibilityMatrix s'"
  then have "calculateColorCompatibility s a b = calculateColorCompatibility s' a b" for a b
    by (simp add: calculateColorCompatibility_def)
  then show ?thesis by (simp add: fun_eq_iff)
qed

lemma calculateOutfitScore_cong:
  assumes "colorCompatibilityMatrix s = colorCompatibilityMatrix s'"
  shows "calculateOutfitScore s xs = calculateOutfitScore s' xs"
proof -
  have "pairScore s = pairScore s'"
    using calculateColorCompatibility_cong [OF assms] by (simp add: fun_eq_iff pairScore_def)
  then have "scoreOuter s xs 0 (0, 0) = scoreOuter s' xs 0 (0, 0)"
    by (simp only: scoreOuter_eq)
  then show ?thesis by (simp add: calculateOutfitScore_def)
qed

lemma attempt_cong:
  assumes "colorCompatibilityMatrix s = colorCompatibilityMatrix s'"
  shows "attempt s pool req rnd st = attempt s' pool req rnd st"
proof -
  have "makeRecommendation s outfit = makeRecommendation s' outfit" for outfit
    using calculateOutfitScore_cong [OF assms, of outfit] by (simp add: makeRecommendation_def)
  then have e: "makeRecommendation s = makeRecommendation s'"
    by (simp add: fun_eq_iff)
  show ?thesis unfolding attempt_def e by (rule refl)
qed

lemma recommendLoop_cong:
  "colorCompatibilityMatrix s = colorCompatibilityMatrix s' \<Longrightarrow>
     recommendLoop s pool req n rnd st = recommendLoop s' pool req n rnd st"
proof (induction s pool req n rnd st rule: recommendLoop.induct)
  case (1 this pool req n rnd st)
  show ?case
  proof (cases "length (recommendations st) < n \<and> attempts st < n * 10")
    case True
    then show ?thesis
      using "1.IH" [OF True "1.prems"] attempt_cong [OF "1.prems"]
      by (subst recommendLoop_unfold, subst (2) recommendLoop_unfold) simp
  next
    case False
    then show ?thesis
      by (subst recommendLoop_unfold, subst (2) recommendLoop_unfold) auto
  qed
qed

lemma generateOutfitRecommendations_cong:
  "colorCompatibilityMatrix s = colorCompatibilityMatrix s' \<Longrightarrow>
     generateOutfitRecommendations s clothingItems n occ w req rnd
       = generateOutfitRecommendations s' clothingItems n occ w req rnd"
  by (simp add: generateOutfitRecommendations_def collectRecommendations_def
      recommendLoop_cong [of s s'])

lemma applyFeedback_matrix:
  "colorCompatibilityMatrix (applyFeedback s f) = colorCompatibilityMatrix s"
  by (cases f)
    (simp_all add: rateOutfit_def updateStylePreferences_def loadUserPreferences_def Let_def
      split: option.splits)

lemma foldl_applyFeedback_matrix:
  "colorCompatibilityMatrix (foldl applyFeedback s fs) = colorCompatibilityMatrix s"
  by (induction fs arbitrary: s) (simp_all add: applyFeedback_matrix)

subsection \<open>C10: every recommendation has at least two items\<close>

text \<open>
  C10. Every recommendation that \<open>generateOutfitRecommendations\<close> returns has at least
  two items, for every wardrobe, filter, count and random source. A candidate with fewer
  than two items is discarded by the loop: the attempt only counts the attempt and moves
  the random source; \<open>recommendations\<close> and \<open>seen\<close> stay as they are.
\<close>

theorem recommendations_have_two_items:
  "(r \<in> set (generateOutfitRecommendations this clothingItems n occ w req rnd)
      \<longrightarrow> 2 \<le> length (items r))
   \<and> (length (fst (generateSingleOutfitWithRequired pool outfitTemplate req rnd (pos st))) < 2
      \<longrightarrow> attempt this pool req rnd st =
            st\<lparr>attempts := attempts st + 1,
               pos := snd (generateSingleOutfitWithRequired pool outfitTemplate req rnd (pos st))\<rparr>)"
proof (intro conjI impI)
  assume "r \<in> set (generateOutfitRecommendations this clothingItems n occ w req rnd)"
  then show "2 \<le> length (items r)"
    by (rule generated_cases) simp
next
  assume "length (fst (generateSingleOutfitWithRequired pool outfitTemplate req rnd (pos st))) < 2"
  then show "attempt this pool req rnd st =
            st\<lparr>attempts := attempts st + 1,
               pos := snd (generateSingleOutfitWithRequired pool outfitTemplate req rnd (pos st))\<rparr>"
    by (cases "generateSingleOutfitWithRequired pool outfitTemplate req rnd (pos st)")
      (simp add: attempt_def)
qed

theorem recommendations_have_two_items_witness:
  "makeRecommendation newService [tshirtA, jeansB]
     \<in> set (generateOutfitRecommendations newService [tshirtA, jeansB, shortsC] 2 None None []
          exampleRnd)
   \<and> 2 \<le> length (items (makeRecommendation newService [tshirtA, jeansB]))
   \<and> length (fst (generateSingleOutfitWithRequired [dressD] outfitTemplate [] exampleRnd
        (pos initialLoopState))) < 2
   \<and> attempt newService [dressD] [] exampleRnd initialLoopState =
        initialLoopState\<lparr>attempts := attempts initialLoopState + 1,
          pos := snd (generateSingleOutfitWithRequired [dressD] outfitTemplate [] exampleRnd
                  (pos initialLoopState))\<rparr>"
proof -
  have m: "makeRecommendation newService [tshirtA, jeansB]
     \<in> set (generateOutfitRecommendations newService [tshirtA, jeansB, shortsC] 2 None None []
          exampleRnd)"
    by (simp add: example_run)
  have l: "length (fst (generateSingleOutfitWithRequired [dressD] outfitTemplate [] exampleRnd
        (pos initialLoopState))) < 2"
    by (simp add: dress_only_candidate)
  from recommendations_have_two_items [of "makeRecommendation newService [tshirtA, jeansB]"
      newService "[tshirtA, jeansB, shortsC]" 2 None None "[]" exampleRnd "[dressD]"
      initialLoopState] m l
  show ?thesis by blast
qed

subsection \<open>C3: at most \<open>n\<close> recommendations, sorted by score, ties in generation order\<close>

text \<open>
  C3. For every wardrobe, filters and count \<open>n\<close>, the returned list has at most \<open>n\<close>
  entries, the scores do not increase along it, and for every score \<open>v\<close> the entries
  with score \<open>v\<close> stand in the order in which the loop generated them
  (\<open>collectRecommendations\<close> is the list before the sort).
\<close>

theorem generateOutfitRecommendations_sorted:
  "length (generateOutfitRecommendations this clothingItems n occ w req rnd) \<le> n
   \<and> sorted_wrt (\<lambda>a b. score b \<le> score a)
       (generateOutfitRecommendations this clothingItems n occ w req rnd)
   \<and> filter (\<lambda>r. score r = v) (generateOutfitRecommendations this clothingItems n occ w req rnd)
       = filter (\<lambda>r. score r = v) (collectRecommendations this clothingItems n occ w req rnd)"
proof (intro conjI)
  have "length (collectRecommendations this clothingItems n occ w req rnd) \<le> n"
    unfolding collectRecommendations_def
    by (rule recommendLoop_length) (simp add: initialLoopState_def)
  then show "length (generateOutfitRecommendations this clothingItems n occ w req rnd) \<le> n"
    by (simp add: generateOutfitRecommendations_def arraySort_length)
  show "sorted_wrt (\<lambda>a b. score b \<le> score a)
       (generateOutfitRecommendations this clothingItems n occ w req rnd)"
    unfolding generateOutfitRecommendations_def by (rule arraySort_sorted)
  show "filter (\<lambda>r. score r = v) (generateOutfitRecommendations this clothingItems n occ w req rnd)
       = filter (\<lambda>r. score r = v) (collectRecommendations this clothingItems n occ w req rnd)"
    unfolding generateOutfitRecommendations_def by (rule arraySort_stable)
qed

theorem generateOutfitRecommendations_sorted_witness:
  "length (generateOutfitRecommendations newService [tshirtA, jeansB, shortsC] 2 None None []
      exampleRnd) \<le> 2
   \<and> map score (generateOutfitRecommendations newService [tshirtA, jeansB, shortsC] 2 None None
        [] exampleRnd) = [0.85, 0.8]
   \<and> map score (collectRecommendations newService [tshirtA, jeansB, shortsC] 2 None None
        [] exampleRnd) = [0.8, 0.85]"
proof -
  from generateOutfitRecommendations_sorted [of newService "[tshirtA, jeansB, shortsC]" 2 None
      None "[]" exampleRnd]
  have "length (generateOutfitRecommendations newService [tshirtA, jeansB, shortsC] 2 None None []
      exampleRnd) \<le> 2"
    by (rule conjunct1)
  then show ?thesis
    by (simp add: example_run example_collect example_rec1 example_rec2)
qed

subsection \<open>C6: the items of a recommendation\<close>



text \<open>An edge case without any filter: the wardrobe of a T-shirt and shoes has no bottom
  and no dress. With draws of \<open>0.9\<close> the shoes are added, the candidate has two items
  and is returned, although it has no bottom.\<close>

lemma tshirt_shoes_run:
  "generateOutfitRecommendations newService [tshirtA, shoesS] 1 None None [] (\<lambda>k. drawHigh)
     = [makeRecommendation newService [tshirtA, shoesS]]
   \<and> \<not> completeOutfit [tshirtA, shoesS]
   \<and> \<not> completeOutfit (filteredItems [tshirtA, shoesS] None None)"
proof -
  have g: "generateSingleOutfitWithRequired [tshirtA, shoesS] outfitTemplate [] (\<lambda>k. drawHigh) 0
      = ([tshirtA, shoesS], 3)"
    by (simp add: generateSingleOutfitWithRequired_def pickBase_def addAccessory_def
        outfitTemplate_def drawHigh.rep_eq Let_def)
  have "recommendations (recommendLoop newService [tshirtA, shoesS] [] 1 (\<lambda>k. drawHigh)
          initialLoopState) = [makeRecommendation newService [tshirtA, shoesS]]"
    apply (simp add: initialLoopState_def)
    apply (subst recommendLoop_unfold, simp add: attempt_def g)
    apply (subst recommendLoop_unfold, simp)
    done
  then have "generateOutfitRecommendations newService [tshirtA, shoesS] 1 None None []
      (\<lambda>k. drawHigh) = [makeRecommendation newService [tshirtA, shoesS]]"
    by (simp add: generateOutfitRecommendations_def collectRecommendations_def filteredItems_def
        arraySort_def)
  moreover have "\<not> completeOutfit [tshirtA, shoesS]"
    by (simp add: completeOutfit_def hasDress_def hasBottom_def outfitTemplate_def)
  ultimately show ?thesis by (simp add: filteredItems_def)
qed

subsection \<open>C4: the base dress\<close>




subsection \<open>C1: a wardrobe of one dress\<close>

text \<open>
  C1, evaluated on the code. For a wardrobe of exactly one item, of category \<open>Dress\<close>,
  every candidate is that dress alone and its style would be \<open>Elegant\<close>, but the
  candidate has fewer than two items: the loop discards it and
  \<open>generateOutfitRecommendations\<close> returns the empty list, for every count, filter,
  required categories and random source.
\<close>

theorem dress_only_wardrobe:
  "fst (generateSingleOutfitWithRequired [\<lparr>uri = u, category = ''Dress'', color = c\<rparr>]
          outfitTemplate req rnd p) = [\<lparr>uri = u, category = ''Dress'', color = c\<rparr>]
   \<and> classifyOutfitStyle [\<lparr>uri = u, category = ''Dress'', color = c\<rparr>] = ''Elegant''
   \<and> generateOutfitRecommendations this [\<lparr>uri = u, category = ''Dress'', color = c\<rparr>]
        n occ w req rnd = []"
proof (intro conjI)
  show "fst (generateSingleOutfitWithRequired [\<lparr>uri = u, category = ''Dress'', color = c\<rparr>]
          outfitTemplate req rnd p) = [\<lparr>uri = u, category = ''Dress'', color = c\<rparr>]"
    by (rule dress_only_candidate) simp
  show "classifyOutfitStyle [\<lparr>uri = u, category = ''Dress'', color = c\<rparr>] = ''Elegant''"
    by (simp add: classifyOutfitStyle_def toLowerCase_def lowerChar_def)
  let ?pool = "filteredItems [\<lparr>uri = u, category = ''Dress'', color = c\<rparr>] occ w"
  have small: "length (fst (generateSingleOutfitWithRequired ?pool outfitTemplate req rnd p')) < 2"
    for p'
  proof -
    obtain xs q where g: "generateSingleOutfitWithRequired ?pool outfitTemplate req rnd p' = (xs, q)"
      by (cases "generateSingleOutfitWithRequired ?pool outfitTemplate req rnd p'")
    from generateSingle_length [OF g]
      filteredItems_length [of "[\<lparr>uri = u, category = ''Dress'', color = c\<rparr>]" occ w]
    show ?thesis using g by simp
  qed
  have "recommendations (recommendLoop this ?pool req n rnd initialLoopState)
      = recommendations initialLoopState"
    by (rule recommendLoop_none) (rule small)
  then show "generateOutfitRecommendations this [\<lparr>uri = u, category = ''Dress'', color = c\<rparr>]
        n occ w req rnd = []"
    by (simp add: generateOutfitRecommendations_def collectRecommendations_def
        initialLoopState_def arraySort_def)
qed

subsection \<open>C8: a T-shirt and jeans\<close>

text \<open>
  C8. For the wardrobe of the red T-shirt \<open>a\<close> and the blue jeans \<open>b\<close>, a request for
  3 recommendations without filters returns, under every random source, the list of one
  entry: that pair, with score \<open>(0.7 + 0.9) / 2 = 0.8\<close> and style \<open>Casual\<close>.
\<close>

theorem tshirt_jeans_wardrobe:
  "generateOutfitRecommendations newService
     [\<lparr>uri = ''a'', category = ''T-shirt'', color = ''red''\<rparr>,
      \<lparr>uri = ''b'', category = ''Jeans'', color = ''blue''\<rparr>] 3 None None [] rnd
   = [\<lparr>items = [\<lparr>uri = ''a'', category = ''T-shirt'', color = ''red''\<rparr>,
                \<lparr>uri = ''b'', category = ''Jeans'', color = ''blue''\<rparr>],
       score = 0.8,
       reason = Some ''Trendy casual combination with modern appeal'',
       style = ''Casual''\<rparr>]"
proof -
  define st1 where "st1 = \<lparr>recommendations = [makeRecommendation newService [tshirtA, jeansB]],
     seen = {join ''|'' (sort (map uri [tshirtA, jeansB]))}, attempts = 1, pos = 2\<rparr>"
  have a: "attempt newService [tshirtA, jeansB] [] rnd initialLoopState = st1"
    by (simp add: attempt_def tshirt_jeans_candidate initialLoopState_def st1_def)
  have "recommendations (recommendLoop newService [tshirtA, jeansB] [] 3 rnd st1)
      = recommendations st1"
    by (rule recommendLoop_rejects) (simp add: tshirt_jeans_candidate st1_def)
  then have "recommendations (recommendLoop newService [tshirtA, jeansB] [] 3 rnd initialLoopState)
      = [makeRecommendation newService [tshirtA, jeansB]]"
    by (subst recommendLoop_unfold) (simp add: a, simp add: initialLoopState_def st1_def)
  then have "generateOutfitRecommendations newService [tshirtA, jeansB] 3 None None [] rnd
      = [makeRecommendation newService [tshirtA, jeansB]]"
    by (simp add: generateOutfitRecommendations_def collectRecommendations_def filteredItems_def
        arraySort_def)
  then show ?thesis
    by (simp add: example_rec1) (simp add: tshirtA_def jeansB_def)
qed

subsection \<open>C7: feedback does not reach the recommendations\<close>

text \<open>
  C7. With the same wardrobe, filters, count and random source,
  \<open>generateOutfitRecommendations\<close> returns the same list after any sequence of
  \<open>rateOutfit\<close>, \<open>updateStylePreferences\<close> and \<open>loadUserPreferences\<close> calls, and for
  any other contents of the fields \<open>outfitRatings\<close> and \<open>stylePreferences\<close>.
\<close>

theorem feedback_never_affects_recommendations:
  "generateOutfitRecommendations (foldl applyFeedback this fs) clothingItems n occ w req rnd
     = generateOutfitRecommendations this clothingItems n occ w req rnd
   \<and> generateOutfitRecommendations (this\<lparr>outfitRatings := rs, stylePreferences := ps\<rparr>)
       clothingItems n occ w req rnd
     = generateOutfitRecommendations this clothingItems n occ w req rnd"
proof
  show "generateOutfitRecommendations (foldl applyFeedback this fs) clothingItems n occ w req rnd
     = generateOutfitRecommendations this clothingItems n occ w req rnd"
    by (rule generateOutfitRecommendations_cong) (rule foldl_applyFeedback_matrix)
  show "generateOutfitRecommendations (this\<lparr>outfitRatings := rs, stylePreferences := ps\<rparr>)
       clothingItems n occ w req rnd
     = generateOutfitRecommendations this clothingItems n occ w req rnd"
    by (rule generateOutfitRecommendations_cong) simp
qed

end
